theory Spec2Isabelle
  imports Complex_Main "HOL-Library.AList"
begin

section \<open>Python values and effects shared by both exchange classes\<close>

text \<open>
  Exceptions are values. \<open>TypeError\<close> and \<open>KeyError\<close> are the interpreter's own;
  \<open>ExchangeError\<close> and \<open>RateLimitExceeded\<close> are the two classes bitmex.py imports from
  ccxt.base.errors; \<open>NotImplementedError\<close> stands for an error class that would tell the
  caller "not implemented" (no such class is imported or defined by either source file);
  \<open>OtherError\<close> is any failure of a collaborator outside these sources (REST fetch,
  market lookup, payload decoding).
\<close>

datatype exn =
    TypeError
  | KeyError
  | ExchangeError string
  | RateLimitExceeded string
  | NotImplementedError string
  | OtherError string

text \<open>What a Python call does: it returns a value or raises.\<close>

datatype 'a outcome = Return 'a | Raise exn

text \<open>
  The connection object (\<open>client\<close>) is a collaborator whose class is not part of these
  sources. The model keeps its \<open>subscriptions\<close> dictionary (insertion ordered, as a
  Python dict is) and the trace of the calls made on it: \<open>client.resolve(value, hash)\<close>
  and \<open>client.reject(exception, hash)\<close>.
\<close>

datatype 'v call = Resolve 'v "string option" | Reject exn "string option"

text \<open>
  Python 3 orders two integers; ordering anything against \<open>None\<close> raises TypeError.
\<close>

definition py_gt :: "int option \<Rightarrow> int option \<Rightarrow> exn + bool" where
  "py_gt a b = (case a of None \<Rightarrow> Inl TypeError
     | Some x \<Rightarrow> (case b of None \<Rightarrow> Inl TypeError | Some y \<Rightarrow> Inr (y < x)))"

section \<open>ripio: data model\<close>

text \<open>
  An inbound frame, read by the code only through
  \<open>safe_string(message, 'messageId' | 'payload' | 'publishTime')\<close>.
\<close>

record message =
  messageId :: "string option"
  payload :: "string option"
  publishTime :: "string option"

text \<open>
  One price level of a decoded delta, as \<open>handle_delta\<close> reads it:
  \<open>safe_float(delta, 'price')\<close> and \<open>safe_float(delta, 'amount')\<close>. Prices and amounts
  are the spec's decimals.
\<close>

record delta =
  price :: "rat option"
  amount :: "rat option"

text \<open>
  The decoded payload, as the handlers read it: \<open>safe_integer(data, 'updated_id')\<close>,
  \<open>safe_value(data, 'sell')\<close>, \<open>safe_value(data, 'buy')\<close>; \<open>rest\<close> is whatever else
  the JSON object holds (the trade or ticker fields the parsers read).
\<close>

record data =
  updated_id :: "int option"
  sell :: "delta list option"
  buy :: "delta list option"
  rest :: string

type_synonym bookside = "(rat \<times> rat) list"

record orderbook =
  bids :: bookside
  asks :: bookside
  nonce :: "int option"
  timestamp :: "int option"
  datetime :: "string option"
  cache :: "message list"

text \<open>\<open>self.order_book({})\<close>: a fresh book, nothing set, nothing buffered.\<close>

definition order_book :: orderbook where
  "order_book = \<lparr>bids = [], asks = [], nonce = None, timestamp = None,
     datetime = None, cache = []\<rparr>"

text \<open>What \<open>fetch_order_book\<close> (the REST collaborator) hands back.\<close>

record snapshot =
  s_bids :: bookside
  s_asks :: bookside
  s_nonce :: int

record market =
  market_id :: string
  market_symbol :: string

datatype handler = Handle_trade | Handle_ticker | Handle_order_book

text \<open>
  A subscription is a dict read with \<open>safe_string\<close> / \<open>safe_value\<close>, so every key may
  be missing; \<open>{}\<close> is the dict with none. The stored bound method
  (\<open>'method': self.handle_X\<close>) is the tag of the method.
\<close>

record subscription =
  name :: "string option"
  symbol :: "string option"
  messageHash :: "string option"
  sub_method :: "handler option"

definition empty_subscription :: subscription where
  "empty_subscription = \<lparr>name = None, symbol = None, messageHash = None, sub_method = None\<rparr>"

record ticker =
  t_symbol :: "string option"
  t_timestamp :: "int option"
  t_datetime :: "string option"
  t_info :: string

type_synonym trade = string

text \<open>
  Modelled from the spec: \<open>ArrayCache\<close> (ccxt.pro.base.cache, not part of these sources)
  is the spec's TradeRingBuffer: fixed capacity, \<open>append\<close> evicts the oldest entry once
  full, arrival order.
\<close>

record array_cache =
  maxlen :: nat
  entries :: "trade list"

definition cache_append :: "trade \<Rightarrow> array_cache \<Rightarrow> array_cache" where
  "cache_append t c =
     (if maxlen c \<le> length (entries c)
      then c\<lparr>entries := drop (Suc (length (entries c) - maxlen c)) (entries c @ [t])\<rparr>
      else c\<lparr>entries := entries c @ [t]\<rparr>)"

datatype resolved = Book orderbook | Trades array_cache | Ticker ticker

record client =
  subscriptions :: "(string \<times> subscription) list"
  calls :: "resolved call list"

text \<open>
  The exchange instance: \<open>self.orderbooks\<close>, \<open>self.trades\<close>, \<open>self.tickers\<close>, the
  clients by url (\<open>self.client(url)\<close>), the calls scheduled with \<open>self.delay\<close>
  (delay, url of the client, subscription; the callee is always
  \<open>fetch_order_book_snapshot\<close>), the acknowledgments spawned with \<open>self.spawn\<close>, and
  the \<open>self.watch\<close> calls awaited (url, messageHash).
\<close>

record ripio =
  orderbooks :: "(string \<times> orderbook) list"
  trades :: "(string option \<times> array_cache) list"
  tickers :: "(string option \<times> ticker) list"
  clients :: "(string \<times> client) list"
  delayed :: "(int \<times> string \<times> subscription) list"
  spawned :: "string list"
  watching :: "(string \<times> string) list"

text \<open>
  The collaborators and configuration the class consumes and these sources do not
  contain, taken as parameters: the outcome of \<open>load_markets\<close>, \<open>self.market\<close>,
  \<open>urls.api.ws\<close>, \<open>options.uuid\<close>, \<open>self.rateLimit\<close>,
  \<open>options.fetchOrderBookSnapshot.delay\<close>, \<open>options.tradesLimit\<close>,
  \<open>json.loads(self.base64_to_string(payload))\<close>, \<open>parse8601\<close>, \<open>iso8601\<close>,
  \<open>parse_trade\<close>, \<open>parse_ticker\<close> and the book side's \<open>store\<close>.
\<close>

record env =
  load_markets :: "exn option"
  market_of :: "string option \<Rightarrow> exn + market"
  ws_url :: string
  uuid :: string
  rateLimit :: int
  snapshot_delay :: "int option"
  tradesLimit :: "nat option"
  decode :: "string \<Rightarrow> exn + data"
  parse8601 :: "string option \<Rightarrow> int option"
  iso8601 :: "int option \<Rightarrow> string option"
  parse_trade :: "data \<Rightarrow> market \<Rightarrow> exn + trade"
  parse_ticker :: "data \<Rightarrow> exn + ticker"
  store :: "rat option \<Rightarrow> rat option \<Rightarrow> bookside \<Rightarrow> bookside"

section \<open>ripio: operations\<close>

text \<open>\<open>safe_value(dictionary, key)\<close> with a key that may be \<open>None\<close>.\<close>

definition safe_value :: "('k \<times> 'v) list \<Rightarrow> 'k option \<Rightarrow> 'v option" where
  "safe_value d k = (case k of None \<Rightarrow> None | Some k' \<Rightarrow> map_of d k')"

text \<open>\<open>safe_string(keys, 0)\<close> on a list: the element at the index, or \<open>None\<close>.\<close>

definition safe_string_at :: "string list \<Rightarrow> nat \<Rightarrow> string option" where
  "safe_string_at xs i = (if i < length xs then Some (xs ! i) else None)"

text \<open>\<open>str.lower()\<close> on the ASCII letters market ids are written in.\<close>

definition lower_char :: "char \<Rightarrow> char" where
  "lower_char c =
     (case map_of (zip ''ABCDEFGHIJKLMNOPQRSTUVWXYZ'' ''abcdefghijklmnopqrstuvwxyz'') c of
        None \<Rightarrow> c | Some l \<Rightarrow> l)"

definition lower :: "string \<Rightarrow> string" where
  "lower s = map lower_char s"

datatype side = Asks | Bids

text \<open>
  \<open>def handle_delta(self, bookside, delta)\<close>. The book side is a part of the order book
  object (\<open>orderbook['asks']\<close>, \<open>orderbook['bids']\<close>), mutated in place.
\<close>

definition handle_delta :: "env \<Rightarrow> side \<Rightarrow> delta \<Rightarrow> orderbook \<Rightarrow> orderbook" where
  "handle_delta e bookside d ob =
     (case bookside of
        Asks \<Rightarrow> ob\<lparr>asks := store e (price d) (amount d) (asks ob)\<rparr>
      | Bids \<Rightarrow> ob\<lparr>bids := store e (price d) (amount d) (bids ob)\<rparr>)"

text \<open>The body of \<open>handle_deltas\<close>: \<open>for i in range(0, len(deltas))\<close>.\<close>

fun handle_deltas_loop :: "env \<Rightarrow> side \<Rightarrow> delta list \<Rightarrow> orderbook \<Rightarrow> orderbook" where
  "handle_deltas_loop e bookside [] ob = ob"
| "handle_deltas_loop e bookside (d # ds) ob =
     handle_deltas_loop e bookside ds (handle_delta e bookside d ob)"

text \<open>
  The positional arguments of a call of \<open>self.handle_deltas\<close>.
  \<open>def handle_deltas(self, bookside, deltas)\<close> declares two parameters besides \<open>self\<close>
  and no defaults or \<open>*args\<close>: Python raises TypeError at a call with any other number of
  arguments, before the body runs.
\<close>

datatype pyarg = Side side | Deltas "delta list" | Nonce "int option"

definition handle_deltas :: "env \<Rightarrow> pyarg list \<Rightarrow> orderbook \<Rightarrow> unit outcome \<times> orderbook" where
  "handle_deltas e args ob =
     (if length args \<noteq> 2 then (Raise TypeError, ob)
      else (case (args ! 0, args ! 1) of
              (Side bookside, Deltas deltas) \<Rightarrow> (Return (), handle_deltas_loop e bookside deltas ob)
            | _ \<Rightarrow> (Raise TypeError, ob)))"

text \<open>What a handler returns: the frame, the order book object, or nothing.\<close>

datatype retval = RMessage message | ROrderbook | RNone

text \<open>
  \<open>handle_order_book_message(self, client, message, orderbook)\<close>: the outcome and the
  order book object as the call leaves it.
\<close>

definition handle_order_book_message ::
  "env \<Rightarrow> client \<Rightarrow> message \<Rightarrow> orderbook \<Rightarrow> retval outcome \<times> orderbook" where
  "handle_order_book_message e cl m ob =
     (case payload m of
        None \<Rightarrow> (Return (RMessage m), ob)
      | Some p \<Rightarrow>
         (case decode e p of
            Inl x \<Rightarrow> (Raise x, ob)
          | Inr d \<Rightarrow>
             (case py_gt (updated_id d) (nonce ob) of
                Inl x \<Rightarrow> (Raise x, ob)
              | Inr False \<Rightarrow> (Return ROrderbook, ob)
              | Inr True \<Rightarrow>
                 (let a = (case sell d of None \<Rightarrow> [] | Some ds \<Rightarrow> ds);
                      b = (case buy d of None \<Rightarrow> [] | Some ds \<Rightarrow> ds)
                  in case handle_deltas e [Side Asks, Deltas a, Nonce (nonce ob)] ob of
                       (Raise x, ob1) \<Rightarrow> (Raise x, ob1)
                     | (Return u, ob1) \<Rightarrow>
                        (case handle_deltas e [Side Bids, Deltas b, Nonce (nonce ob1)] ob1 of
                           (Raise x, ob2) \<Rightarrow> (Raise x, ob2)
                         | (Return v, ob2) \<Rightarrow>
                            (let ts = parse8601 e (publishTime m);
                                 ob3 = ob2\<lparr>nonce := updated_id d, timestamp := ts,
                                           datetime := iso8601 e ts\<rparr>
                             in (Return ROrderbook, ob3)))))))"

text \<open>
  \<open>handle_order_book(self, client, message, subscription)\<close>: the outcome, the client and
  the instance as the call leaves them. The order book is the object stored in
  \<open>self.orderbooks\<close>, so what the callee did to it is in the instance also when the
  callee raised.
\<close>

definition ripio_handle_order_book ::
  "env \<Rightarrow> client \<Rightarrow> message \<Rightarrow> subscription \<Rightarrow> ripio \<Rightarrow> retval outcome \<times> client \<times> ripio" where
  "ripio_handle_order_book e cl m sub st =
     (case symbol sub of
        None \<Rightarrow> (Return (RMessage m), cl, st)
      | Some s \<Rightarrow>
         (case map_of (orderbooks st) s of
            None \<Rightarrow> (Return (RMessage m), cl, st)
          | Some ob \<Rightarrow>
             (case nonce ob of
                None \<Rightarrow>
                  (Return (RMessage m), cl,
                   st\<lparr>orderbooks := AList.update s (ob\<lparr>cache := cache ob @ [m]\<rparr>) (orderbooks st)\<rparr>)
              | Some n \<Rightarrow>
                  (case handle_order_book_message e cl m ob of
                     (Raise x, ob') \<Rightarrow>
                       (Raise x, cl, st\<lparr>orderbooks := AList.update s ob' (orderbooks st)\<rparr>)
                   | (Return r, ob') \<Rightarrow>
                       (Return (RMessage m),
                        cl\<lparr>calls := calls cl @ [Resolve (Book ob') (messageHash sub)]\<rparr>,
                        st\<lparr>orderbooks := AList.update s ob' (orderbooks st)\<rparr>)))))"

text \<open>
  Modelled from the spec: \<open>OrderBook.reset\<close> (ccxt.pro.base.order_book, not part of these
  sources) installs the snapshot's bids, asks and nonce into the order book.
\<close>

definition reset :: "snapshot \<Rightarrow> orderbook \<Rightarrow> orderbook" where
  "reset snap ob = ob\<lparr>bids := s_bids snap, asks := s_asks snap, nonce := Some (s_nonce snap)\<rparr>"

text \<open>
  The loop of \<open>fetch_order_book_snapshot\<close> over the accumulated frames; an exception
  leaves the loop.
\<close>

fun unroll :: "env \<Rightarrow> client \<Rightarrow> message list \<Rightarrow> orderbook \<Rightarrow> unit outcome \<times> orderbook" where
  "unroll e cl [] ob = (Return (), ob)"
| "unroll e cl (m # ms) ob =
     (case handle_order_book_message e cl m ob of
        (Raise x, ob') \<Rightarrow> (Raise x, ob')
      | (Return r, ob') \<Rightarrow> unroll e cl ms ob')"

text \<open>
  \<open>fetch_order_book_snapshot(self, client, subscription)\<close> from the moment the awaited
  \<open>fetch_order_book(symbol)\<close> completes with \<open>fetched\<close>. Everything after the fetch is
  inside \<open>try\<close>; \<open>except Exception as e\<close> turns whatever is raised into
  \<open>client.reject(e, messageHash)\<close>, and the coroutine returns nothing either way.
\<close>

definition fetch_order_book_snapshot ::
  "env \<Rightarrow> snapshot outcome \<Rightarrow> client \<Rightarrow> subscription \<Rightarrow> ripio \<Rightarrow> client \<times> ripio" where
  "fetch_order_book_snapshot e fetched cl sub st =
     (case fetched of
        Raise x \<Rightarrow> (cl\<lparr>calls := calls cl @ [Reject x (messageHash sub)]\<rparr>, st)
      | Return snap \<Rightarrow>
         (case symbol sub of
            None \<Rightarrow> (cl\<lparr>calls := calls cl @ [Reject KeyError (messageHash sub)]\<rparr>, st)
          | Some s \<Rightarrow>
             (case map_of (orderbooks st) s of
                None \<Rightarrow> (cl\<lparr>calls := calls cl @ [Reject KeyError (messageHash sub)]\<rparr>, st)
              | Some ob \<Rightarrow>
                 (case unroll e cl (cache ob) (reset snap ob) of
                    (Raise x, ob') \<Rightarrow>
                      (cl\<lparr>calls := calls cl @ [Reject x (messageHash sub)]\<rparr>,
                       st\<lparr>orderbooks := AList.update s ob' (orderbooks st)\<rparr>)
                  | (Return u, ob') \<Rightarrow>
                      (cl\<lparr>calls := calls cl @ [Resolve (Book ob') (messageHash sub)]\<rparr>,
                       st\<lparr>orderbooks := AList.update s ob' (orderbooks st)\<rparr>)))))"

text \<open>
  \<open>handle_trade(self, client, message, subscription)\<close>; the method ends without a
  \<open>return\<close> once the trade is stored. \<open>self.trades\<close> and \<open>self.tickers\<close> are
  dictionaries keyed by whatever the symbol is, \<open>None\<close> included.
\<close>

definition handle_trade ::
  "env \<Rightarrow> client \<Rightarrow> message \<Rightarrow> subscription \<Rightarrow> ripio \<Rightarrow> retval outcome \<times> client \<times> ripio" where
  "handle_trade e cl m sub st =
     (case payload m of
        None \<Rightarrow> (Return (RMessage m), cl, st)
      | Some p \<Rightarrow>
         (case decode e p of
            Inl x \<Rightarrow> (Raise x, cl, st)
          | Inr d \<Rightarrow>
             (case market_of e (symbol sub) of
                Inl x \<Rightarrow> (Raise x, cl, st)
              | Inr mk \<Rightarrow>
                 (case parse_trade e d mk of
                    Inl x \<Rightarrow> (Raise x, cl, st)
                  | Inr t \<Rightarrow>
                     (let arr = (case map_of (trades st) (symbol sub) of
                                   None \<Rightarrow> \<lparr>maxlen = (case tradesLimit e of None \<Rightarrow> 1000 | Some l \<Rightarrow> l),
                                             entries = []\<rparr>
                                 | Some a \<Rightarrow> a);
                          arr' = cache_append t arr
                      in (Return RNone,
                          cl\<lparr>calls := calls cl @ [Resolve (Trades arr') (messageHash sub)]\<rparr>,
                          st\<lparr>trades := AList.update (symbol sub) arr' (trades st)\<rparr>))))))"

text \<open>\<open>handle_ticker(self, client, message, subscription)\<close>.\<close>

definition ripio_handle_ticker ::
  "env \<Rightarrow> client \<Rightarrow> message \<Rightarrow> subscription \<Rightarrow> ripio \<Rightarrow> retval outcome \<times> client \<times> ripio" where
  "ripio_handle_ticker e cl m sub st =
     (case payload m of
        None \<Rightarrow> (Return (RMessage m), cl, st)
      | Some p \<Rightarrow>
         (case decode e p of
            Inl x \<Rightarrow> (Raise x, cl, st)
          | Inr d \<Rightarrow>
             (case parse_ticker e d of
                Inl x \<Rightarrow> (Raise x, cl, st)
              | Inr t \<Rightarrow>
                 (let ts = parse8601 e (publishTime m);
                      t' = t\<lparr>t_timestamp := ts, t_datetime := iso8601 e ts\<rparr>;
                      st' = st\<lparr>tickers := AList.update (t_symbol t') t' (tickers st)\<rparr>
                  in case messageHash sub of
                       None \<Rightarrow> (Return (RMessage m), cl, st')
                     | Some h \<Rightarrow>
                        (Return (RMessage m),
                         cl\<lparr>calls := calls cl @ [Resolve (Ticker t') (Some h)]\<rparr>, st')))))"

text \<open>The call \<open>method(client, message, subscription)\<close> of a stored bound method.\<close>

definition call_method ::
  "handler \<Rightarrow> env \<Rightarrow> client \<Rightarrow> message \<Rightarrow> subscription \<Rightarrow> ripio \<Rightarrow> retval outcome \<times> client \<times> ripio" where
  "call_method h e cl m sub st =
     (case h of
        Handle_trade \<Rightarrow> handle_trade e cl m sub st
      | Handle_ticker \<Rightarrow> ripio_handle_ticker e cl m sub st
      | Handle_order_book \<Rightarrow> ripio_handle_order_book e cl m sub st)"

text \<open>
  \<open>handle_message(self, client, message)\<close>. The acknowledgment is spawned, not awaited:
  the instance records the message id it was spawned for.
\<close>

definition ripio_handle_message ::
  "env \<Rightarrow> client \<Rightarrow> message \<Rightarrow> ripio \<Rightarrow> retval outcome \<times> client \<times> ripio" where
  "ripio_handle_message e cl m st =
     (let st1 = (case messageId m of None \<Rightarrow> st | Some i \<Rightarrow> st\<lparr>spawned := spawned st @ [i]\<rparr>);
          keys = map fst (subscriptions cl);
          firstKey = safe_string_at keys 0;
          sub = (case safe_value (subscriptions cl) firstKey of
                   None \<Rightarrow> empty_subscription | Some s \<Rightarrow> s)
      in case sub_method sub of
           None \<Rightarrow> (Return (RMessage m), cl, st1)
         | Some h \<Rightarrow> call_method h e cl m sub st1)"

text \<open>
  Modelled from the spec: \<open>self.client(url)\<close> (the base class, not part of these sources)
  hands out the connection for a url, a new one with no subscription when the url has
  none yet.
\<close>

definition new_client :: client where
  "new_client = \<lparr>subscriptions = [], calls = []\<rparr>"

definition client_of :: "string \<Rightarrow> ripio \<Rightarrow> client" where
  "client_of url st = (case map_of (clients st) url of None \<Rightarrow> new_client | Some c \<Rightarrow> c)"

text \<open>The routing key and the url \<open>watch_order_book\<close> derives from a market.\<close>

definition orderbook_hash :: "market \<Rightarrow> string" where
  "orderbook_hash mk = ''orderbook'' @ ''_'' @ lower (market_id mk)"

definition orderbook_url :: "env \<Rightarrow> market \<Rightarrow> string" where
  "orderbook_url e mk = ws_url e @ orderbook_hash mk @ ''/'' @ uuid e"

definition orderbook_subscription :: "market \<Rightarrow> subscription" where
  "orderbook_subscription mk =
     \<lparr>name = Some ''orderbook'', symbol = Some (market_symbol mk),
      messageHash = Some (orderbook_hash mk), sub_method = Some Handle_order_book\<rparr>"

text \<open>
  \<open>watch_order_book(self, symbol, limit, params)\<close> up to the point where it awaits
  \<open>self.watch(url, messageHash, None, messageHash, subscription)\<close>: the outcome is the
  (url, messageHash) awaited, or what \<open>load_markets\<close> or \<open>self.market\<close> raised. The
  client is the object \<open>self.client(url)\<close> hands out, so the subscription stored in it is
  stored in the instance's client for that url.
\<close>

definition ripio_watch_order_book ::
  "env \<Rightarrow> string \<Rightarrow> ripio \<Rightarrow> (string \<times> string) outcome \<times> ripio" where
  "ripio_watch_order_book e sy st =
     (case load_markets e of
        Some x \<Rightarrow> (Raise x, st)
      | None \<Rightarrow>
         (case market_of e (Some sy) of
            Inl x \<Rightarrow> (Raise x, st)
          | Inr mk \<Rightarrow>
             (let h = orderbook_hash mk;
                  url = orderbook_url e mk;
                  cl = client_of url st;
                  sub = orderbook_subscription mk;
                  st1 = st\<lparr>clients := AList.update url cl (clients st)\<rparr>;
                  st2 = (if h \<notin> set (map fst (subscriptions cl))
                         then st1\<lparr>orderbooks := AList.update (market_symbol mk) order_book (orderbooks st1),
                                  clients := AList.update url
                                     (cl\<lparr>subscriptions := AList.update h sub (subscriptions cl)\<rparr>)
                                     (clients st1),
                                  delayed := delayed st1 @
                                     [(case snapshot_delay e of None \<Rightarrow> rateLimit e | Some dl \<Rightarrow> dl,
                                       url, sub)]\<rparr>
                         else st1)
              in (Return (url, h), st2\<lparr>watching := watching st2 @ [(url, h)]\<rparr>))))"

section \<open>bitmex: data model\<close>

text \<open>
  The names bitmex.py can resolve to a callable exception class are the two it imports:
  \<open>from ccxt.base.errors import ExchangeError\<close> and \<open>import RateLimitExceeded\<close>. It
  imports or defines nothing called \<open>NotImplemented\<close>, so that name is Python's built-in
  constant, an object that cannot be called.
\<close>

datatype pyobj = ExceptionClass "string \<Rightarrow> exn" | NotImplementedConstant

definition module_names :: "(string \<times> pyobj) list" where
  "module_names =
     [(''ExchangeError'', ExceptionClass ExchangeError),
      (''RateLimitExceeded'', ExceptionClass RateLimitExceeded)]"

definition builtin_names :: "(string \<times> pyobj) list" where
  "builtin_names = [(''NotImplemented'', NotImplementedConstant)]"

text \<open>
  \<open>Name(text)\<close>: the name is looked up in the module, then in the built-ins, and the
  object found is called with the text. The result is the exception object the call
  makes or, for an object that is not callable, the TypeError the call itself raises.
\<close>

definition called :: "string \<Rightarrow> string \<Rightarrow> exn" where
  "called nm txt =
     (case map_of (module_names @ builtin_names) nm of
        None \<Rightarrow> OtherError ''NameError''
      | Some (ExceptionClass c) \<Rightarrow> c txt
      | Some NotImplementedConstant \<Rightarrow> TypeError)"

text \<open>
  The value under \<open>'args'\<close> of an echoed request: the list \<open>watch_order_book\<close> sends, or
  a plain string as in the error example of the source's comment.
\<close>

datatype jvalue = JString string | JList "string list"

record request =
  r_op :: "string option"
  args :: "jvalue option"

text \<open>One element of \<open>message['data']\<close>, as \<open>handle_order_book\<close> reads it.\<close>

record row =
  row_symbol :: "string option"
  row_id :: "string option"
  row_side :: "string option"
  row_size :: "rat option"
  row_price :: "rat option"

text \<open>
  An inbound bitmex frame, as the handlers read it; \<open>f_filter_symbol\<close> is
  \<open>safe_value(safe_value(message, 'filter', {}), 'symbol')\<close>.
\<close>

record frame =
  f_error :: "string option"
  f_request :: "request option"
  f_table :: "string option"
  f_action :: "string option"
  f_data :: "row list option"
  f_filter_symbol :: "string option"

text \<open>
  The collaborators and configuration of the bitmex class that these sources do not
  contain, taken as parameters. The indexed order book (type \<open>'b\<close>) is one of them:
  \<open>indexed_order_book\<close> builds one of a given depth, \<open>store_level\<close> and
  \<open>restore_level\<close> are \<open>bookside.store(price, size, id)\<close> and
  \<open>bookside.restore(price, size, id)\<close> on one of its sides. \<open>str_of\<close> is Python's
  \<open>str\<close> as \<open>safe_string\<close> applies it to the value it finds.
\<close>

record 'b bitmex_env =
  bm_id :: string
  bm_load_markets :: "exn option"
  bm_market_of :: "string option \<Rightarrow> exn + market"
  markets_by_id :: "(string \<times> market) list"
  watchOrderBookLevel :: "string option"
  bm_ws_url :: string
  indexed_order_book :: "nat option \<Rightarrow> 'b"
  store_level :: "side \<Rightarrow> rat option \<Rightarrow> rat option \<Rightarrow> string option \<Rightarrow> 'b \<Rightarrow> 'b"
  restore_level :: "side \<Rightarrow> rat option \<Rightarrow> rat option \<Rightarrow> string option \<Rightarrow> 'b \<Rightarrow> 'b"
  str_of :: "jvalue \<Rightarrow> string"

text \<open>
  The bitmex handlers use the client only to resolve and reject: the client is the trace
  of those calls. The instance is \<open>self.orderbooks\<close>.
\<close>

type_synonym 'b bm_client = "'b call list"

type_synonym 'b bm_orderbooks = "(string \<times> 'b) list"

datatype bm_retval = BMessage frame | BNone

section \<open>bitmex: operations\<close>

text \<open>
  \<open>watch_balance(self, params)\<close>: \<open>await self.load_markets()\<close>, then
  \<open>raise NotImplemented(self.id + ' watchBalance() not implemented yet')\<close>.
\<close>

definition watch_balance :: "'b bitmex_env \<Rightarrow> unit outcome" where
  "watch_balance e =
     (case bm_load_markets e of
        Some x \<Rightarrow> Raise x
      | None \<Rightarrow> Raise (called ''NotImplemented'' (bm_id e @ '' watchBalance() not implemented yet'')))"

text \<open>
  \<open>watch_order_book(self, symbol, limit, params)\<close> with the default \<open>params = {}\<close>, up
  to the \<open>self.watch(url, messageHash, request, messageHash)\<close> it awaits: the outcome is
  the url, the routing key awaited and the request sent.
\<close>

definition bitmex_watch_order_book ::
  "'b bitmex_env \<Rightarrow> string \<Rightarrow> int option \<Rightarrow> (string \<times> string \<times> request) outcome" where
  "bitmex_watch_order_book e sy lmt =
     (case (if lmt = None
            then Inr (case watchOrderBookLevel e of None \<Rightarrow> ''orderBookL2'' | Some l \<Rightarrow> l)
            else if lmt = Some 25 then Inr ''orderBookL2_25''
            else if lmt = Some 10 then Inr ''orderBookL10''
            else Inl (called ''ExchangeError''
                   (bm_id e @ '' watchOrderBook limit argument must be None(L2), 25(L2) or 10(L3)''))) of
        Inl x \<Rightarrow> Raise x
      | Inr nm \<Rightarrow>
         (case bm_load_markets e of
            Some x \<Rightarrow> Raise x
          | None \<Rightarrow>
             (case bm_market_of e (Some sy) of
                Inl x \<Rightarrow> Raise x
              | Inr mk \<Rightarrow>
                 (let h = nm @ '':'' @ market_id mk
                  in Return (bm_ws_url e, h, \<lparr>r_op = Some ''subscribe'', args = Some (JList [h])\<rparr>)))))"

text \<open>\<open>side = 'bids' if (side == 'Buy') else 'asks'\<close>.\<close>

definition side_of :: "string option \<Rightarrow> side" where
  "side_of s = (if s = Some ''Buy'' then Bids else Asks)"

text \<open>The loop of the \<open>partial\<close> branch: every row is stored.\<close>

fun store_rows :: "'b bitmex_env \<Rightarrow> row list \<Rightarrow> 'b \<Rightarrow> 'b" where
  "store_rows e [] ob = ob"
| "store_rows e (r # rs) ob =
     store_rows e rs (store_level e (side_of (row_side r)) (row_price r) (row_size r) (row_id r) ob)"

text \<open>
  The first loop of the other branch: rows of a known market are counted in
  \<open>numUpdatesByMarketId\<close> and applied; \<open>self.orderbooks[symbol]\<close> raises KeyError for a
  market with no book yet. The result is the exception if one was raised, the counts and
  the books.
\<close>

fun update_rows ::
  "'b bitmex_env \<Rightarrow> string option \<Rightarrow> row list \<Rightarrow> (string \<times> nat) list \<Rightarrow> 'b bm_orderbooks
     \<Rightarrow> exn option \<times> (string \<times> nat) list \<times> 'b bm_orderbooks" where
  "update_rows e act [] nu obs = (None, nu, obs)"
| "update_rows e act (r # rs) nu obs =
     (case safe_value (markets_by_id e) (row_symbol r) of
        None \<Rightarrow> update_rows e act rs nu obs
      | Some mk \<Rightarrow>
         (let mid = (case row_symbol r of None \<Rightarrow> [] | Some i \<Rightarrow> i);
              nu' = AList.update mid (Suc (case map_of nu mid of None \<Rightarrow> 0 | Some c \<Rightarrow> c)) nu
          in case map_of obs (market_symbol mk) of
               None \<Rightarrow> (Some KeyError, nu', obs)
             | Some ob \<Rightarrow>
                (let sd = side_of (row_side r);
                     sz = (case row_size r of None \<Rightarrow> Some 0 | Some z \<Rightarrow> Some z);
                     ob' = (if act = Some ''insert''
                            then store_level e sd (row_price r) sz (row_id r) ob
                            else restore_level e sd (row_price r) sz (row_id r) ob)
                 in update_rows e act rs nu' (AList.update (market_symbol mk) ob' obs))))"

text \<open>
  The second loop: one \<open>client.resolve(orderbook, table + ':' + marketId)\<close> per market
  that was updated. \<open>table + ':'\<close> raises TypeError when the frame has no table.
\<close>

fun resolve_updated ::
  "'b bitmex_env \<Rightarrow> string option \<Rightarrow> string list \<Rightarrow> 'b bm_orderbooks \<Rightarrow> 'b bm_client
     \<Rightarrow> unit outcome \<times> 'b bm_client" where
  "resolve_updated e tbl [] obs cl = (Return (), cl)"
| "resolve_updated e tbl (mid # mids) obs cl =
     (case tbl of
        None \<Rightarrow> (Raise TypeError, cl)
      | Some t \<Rightarrow>
         (case map_of (markets_by_id e) mid of
            None \<Rightarrow> (Raise KeyError, cl)
          | Some mk \<Rightarrow>
             (case map_of obs (market_symbol mk) of
                None \<Rightarrow> (Raise KeyError, cl)
              | Some ob \<Rightarrow>
                 resolve_updated e tbl mids obs (cl @ [Resolve ob (Some (t @ '':'' @ mid))]))))"

text \<open>\<open>handle_order_book(self, client, message)\<close>.\<close>

definition bitmex_handle_order_book ::
  "'b bitmex_env \<Rightarrow> 'b bm_client \<Rightarrow> frame \<Rightarrow> 'b bm_orderbooks
     \<Rightarrow> unit outcome \<times> 'b bm_client \<times> 'b bm_orderbooks" where
  "bitmex_handle_order_book e cl m obs =
     (let rows = (case f_data m of None \<Rightarrow> [] | Some rs \<Rightarrow> rs) in
      if f_action m = Some ''partial'' then
        (case f_filter_symbol m of
           None \<Rightarrow> (Return (), cl, obs)
         | Some mid \<Rightarrow>
            (case map_of (markets_by_id e) mid of
               None \<Rightarrow> (Return (), cl, obs)
             | Some mk \<Rightarrow>
                (let s = market_symbol mk;
                     obs1 = (if f_table m = Some ''orderBookL2''
                               then AList.update s (indexed_order_book e None) obs
                             else if f_table m = Some ''orderBookL2_25''
                               then AList.update s (indexed_order_book e (Some 25)) obs
                             else if f_table m = Some ''orderBook10''
                               then AList.update s (indexed_order_book e (Some 10)) obs
                             else obs)
                 in case map_of obs1 s of
                      None \<Rightarrow> (Raise KeyError, cl, obs1)
                    | Some ob \<Rightarrow>
                       (let ob' = store_rows e rows ob;
                            obs2 = AList.update s ob' obs1
                        in case f_table m of
                             None \<Rightarrow> (Raise TypeError, cl, obs2)
                           | Some t \<Rightarrow>
                              (Return (), cl @ [Resolve ob' (Some (t @ '':'' @ mid))], obs2)))))
      else
        (case update_rows e (f_action m) rows [] obs of
           (Some x, nu, obs') \<Rightarrow> (Raise x, cl, obs')
         | (None, nu, obs') \<Rightarrow>
            (case resolve_updated e (f_table m) (map fst nu) obs' cl of
               (r, cl') \<Rightarrow> (r, cl', obs'))))"

text \<open>\<open>string.find(key) >= 0\<close>.\<close>

fun find_str :: "string \<Rightarrow> string \<Rightarrow> bool" where
  "find_str k [] = (k = [])"
| "find_str k (c # cs) = (take (length k) (c # cs) = k \<or> find_str k cs)"

text \<open>
  Modelled from the spec: \<open>find_broadly_matched_key\<close> (the base class, not part of these
  sources) gives the first key of the table that the error text broadly matches, that
  is, contains.
\<close>

definition find_broadly_matched_key :: "(string \<times> 'c) list \<Rightarrow> string \<Rightarrow> string option" where
  "find_broadly_matched_key broad s = find (\<lambda>k. find_str k s) (map fst broad)"

text \<open>\<open>self.exceptions['ws']['broad']\<close>, as \<open>describe\<close> sets it.\<close>

definition ws_broad :: "(string \<times> string) list" where
  "ws_broad = [(''Rate limit exceeded'', ''RateLimitExceeded'')]"

text \<open>
  \<open>handle_error_message(self, client, message)\<close>. \<open>args\<close> is what
  \<open>safe_string(request, 'args', [])\<close> gives: the string of the value found, or the empty
  list; \<open>args[0]\<close> of a string is its first character.
\<close>

definition handle_error_message ::
  "'b bitmex_env \<Rightarrow> 'b bm_client \<Rightarrow> frame \<Rightarrow> bool outcome \<times> 'b bm_client" where
  "handle_error_message e cl m =
     (case f_error m of
        None \<Rightarrow> (Return True, cl)
      | Some err \<Rightarrow>
         (let a = (case f_request m of
                     None \<Rightarrow> None
                   | Some rq \<Rightarrow> (case args rq of None \<Rightarrow> None | Some v \<Rightarrow> Some (str_of e v)))
          in case a of
               None \<Rightarrow> (Return True, cl)
             | Some str \<Rightarrow>
                (if 0 < length str then
                   (let h = [str ! 0] in
                    case find_broadly_matched_key ws_broad err of
                      None \<Rightarrow> (Return False, cl @ [Reject (called ''ExchangeError'' err) (Some h)])
                    | Some k \<Rightarrow>
                       (case map_of ws_broad k of
                          None \<Rightarrow> (Raise KeyError, cl)
                        | Some c \<Rightarrow> (Return False, cl @ [Reject (called c err) (Some h)])))
                 else (Return True, cl))))"

text \<open>The dispatch table of \<open>handle_message\<close>; every entry is \<open>self.handle_order_book\<close>.\<close>

datatype bm_handler = Bitmex_handle_order_book

definition methods :: "(string \<times> bm_handler) list" where
  "methods =
     [(''orderBookL2'', Bitmex_handle_order_book),
      (''orderBookL2_25'', Bitmex_handle_order_book),
      (''orderBook10'', Bitmex_handle_order_book)]"

text \<open>
  \<open>handle_message(self, client, message)\<close>; it ends without a \<open>return\<close> when
  \<open>handle_error_message\<close> gave False.
\<close>

definition bitmex_handle_message ::
  "'b bitmex_env \<Rightarrow> 'b bm_client \<Rightarrow> frame \<Rightarrow> 'b bm_orderbooks
     \<Rightarrow> bm_retval outcome \<times> 'b bm_client \<times> 'b bm_orderbooks" where
  "bitmex_handle_message e cl m obs =
     (case handle_error_message e cl m of
        (Raise x, cl') \<Rightarrow> (Raise x, cl', obs)
      | (Return False, cl') \<Rightarrow> (Return BNone, cl', obs)
      | (Return True, cl') \<Rightarrow>
         (case safe_value methods (f_table m) of
            None \<Rightarrow> (Return (BMessage m), cl', obs)
          | Some Bitmex_handle_order_book \<Rightarrow>
             (case bitmex_handle_order_book e cl' m obs of
                (Raise x, cl'', obs') \<Rightarrow> (Raise x, cl'', obs')
              | (Return u, cl'', obs') \<Rightarrow> (Return BNone, cl'', obs'))))"

section \<open>Notions the statements use\<close>

text \<open>
  The instance before any call, a run of \<open>watch_order_book\<close> calls one after the other
  (a call that raises leaves the instance as it was), the number of snapshot fetches
  scheduled for a connection and routing key, and whether the key is registered in the
  connection's subscriptions.
\<close>

definition initial :: ripio where
  "initial = \<lparr>orderbooks = [], trades = [], tickers = [], clients = [], delayed = [],
     spawned = [], watching = []\<rparr>"

fun watch_all :: "env \<Rightarrow> string list \<Rightarrow> ripio \<Rightarrow> ripio" where
  "watch_all e [] st = st"
| "watch_all e (s # ss) st = watch_all e ss (snd (ripio_watch_order_book e s st))"

definition scheduled :: "string \<Rightarrow> string \<Rightarrow> ripio \<Rightarrow> nat" where
  "scheduled url h st =
     length (filter (\<lambda>(dl, u, sub). u = url \<and> messageHash sub = Some h) (delayed st))"

definition subscribed :: "string \<Rightarrow> string \<Rightarrow> ripio \<Rightarrow> bool" where
  "subscribed url h st = (h \<in> set (map fst (subscriptions (client_of url st))))"

text \<open>
  What every run of \<open>watch_order_book\<close> calls keeps true: no connection and routing key
  has more than one snapshot fetch scheduled, and one that has a fetch scheduled is
  registered in the connection's subscriptions.
\<close>

definition fetch_invariant :: "ripio \<Rightarrow> bool" where
  "fetch_invariant st =
     (\<forall>url h. scheduled url h st \<le> 1 \<and> (0 < scheduled url h st \<longrightarrow> subscribed url h st))"

text \<open>
  A retry on next access: the next \<open>watch_order_book\<close> call for the symbol schedules a
  snapshot fetch.
\<close>

definition retried_on_next_access :: "env \<Rightarrow> string \<Rightarrow> ripio \<Rightarrow> bool" where
  "retried_on_next_access e s st =
     (delayed (snd (ripio_watch_order_book e s st)) \<noteq> delayed st)"

text \<open>
  The spec's routing rule for a connection whose frames carry no key: the handler of the
  first registered subscription, if there is a subscription and it has a handler.
\<close>

definition first_subscription :: "client \<Rightarrow> (handler \<times> subscription) option" where
  "first_subscription cl =
     (case subscriptions cl of
        [] \<Rightarrow> None
      | (k, sub) # others \<Rightarrow> (case sub_method sub of None \<Rightarrow> None | Some h \<Rightarrow> Some (h, sub)))"

text \<open>The acknowledgment \<open>handle_message\<close> spawns for a frame that has a message id.\<close>

definition acknowledged :: "message \<Rightarrow> ripio \<Rightarrow> ripio" where
  "acknowledged m st = (case messageId m of None \<Rightarrow> st | Some i \<Rightarrow> st\<lparr>spawned := spawned st @ [i]\<rparr>)"

text \<open>The routing keys of the \<open>client.resolve\<close> calls in a trace.\<close>

fun resolved_keys :: "'v call list \<Rightarrow> string option list" where
  "resolved_keys [] = []"
| "resolved_keys (Resolve v h # cs) = h # resolved_keys cs"
| "resolved_keys (Reject x h # cs) = resolved_keys cs"

text \<open>
  A bitmex connection handing its frames to \<open>handle_message\<close> one after the other,
  whatever each call returns or raises.
\<close>

fun feed ::
  "'b bitmex_env \<Rightarrow> frame list \<Rightarrow> 'b bm_client \<Rightarrow> 'b bm_orderbooks
     \<Rightarrow> 'b bm_client \<times> 'b bm_orderbooks" where
  "feed e [] cl obs = (cl, obs)"
| "feed e (m # ms) cl obs =
     (case bitmex_handle_message e cl m obs of (r, cl', obs') \<Rightarrow> feed e ms cl' obs')"

section \<open>Concrete inputs\<close>

text \<open>
  Modelled from the spec: \<open>store(price, amount)\<close> of the price-level book (the class is
  not part of these sources): amount 0 removes the level, any other amount inserts or
  replaces it.
\<close>

definition store_spec :: "rat option \<Rightarrow> rat option \<Rightarrow> bookside \<Rightarrow> bookside" where
  "store_spec p a bs =
     (case p of
        None \<Rightarrow> bs
      | Some p' \<Rightarrow>
         (case a of
            None \<Rightarrow> bs
          | Some a' \<Rightarrow> (if a' = 0 then AList.delete p' bs else AList.update p' a' bs)))"

definition example_market :: market where
  "example_market = \<lparr>market_id = ''BTC_USDC'', market_symbol = ''BTC/USDC''\<rparr>"

text \<open>
  The decoded delta of the spec's scenario, \<open>{buy: [{price: 100, amount: 0}], sell: [],
  updated_id: u}\<close>; the example decoder reads the update id off a payload \<open>id=u\<close> for the
  ids the examples use.
\<close>

definition example_data :: "int \<Rightarrow> data" where
  "example_data u = \<lparr>updated_id = Some u, sell = Some [],
     buy = Some [\<lparr>price = Some 100, amount = Some 0\<rparr>], rest = []\<rparr>"

definition example_decode :: "string \<Rightarrow> exn + data" where
  "example_decode p =
     (if p = ''id=11'' then Inr (example_data 11)
      else if p = ''id=99739'' then Inr (example_data 99739)
      else if p = ''id=99740'' then Inr (example_data 99740)
      else Inl (OtherError ''JSONDecodeError''))"

definition example_env :: env where
  "example_env =
     \<lparr>load_markets = None,
      market_of = (\<lambda>s. if s = Some ''BTC/USDC'' then Inr example_market
                        else Inl (OtherError ''BadSymbol'')),
      ws_url = ''wss://api.exchange.ripio.com/ws/v2/consumer/non-persistent/public/default/'',
      uuid = ''uuid'',
      rateLimit = 50,
      snapshot_delay = None,
      tradesLimit = Some 1000,
      decode = example_decode,
      parse8601 = (\<lambda>s. case s of None \<Rightarrow> None | Some t \<Rightarrow> Some 1601719509445),
      iso8601 = (\<lambda>t. case t of None \<Rightarrow> None | Some n \<Rightarrow> Some ''2020-10-03T10:05:09.445Z''),
      parse_trade = (\<lambda>d mk. Inr (rest d)),
      parse_ticker = (\<lambda>d. Inr \<lparr>t_symbol = Some ''BTC/USDC'', t_timestamp = None,
                                 t_datetime = None, t_info = rest d\<rparr>),
      store = store_spec\<rparr>"

definition example_frame :: "string \<Rightarrow> message" where
  "example_frame p = \<lparr>messageId = Some ''CAAQAA=='', payload = Some p,
     publishTime = Some ''2020-10-03T10:05:09.445Z''\<rparr>"

text \<open>The book of the spec's scenario, with the nonce and the buffered frames given.\<close>

definition example_book :: "int option \<Rightarrow> message list \<Rightarrow> orderbook" where
  "example_book n ms = \<lparr>bids = [(100, 1)], asks = [(101, 2)], nonce = n, timestamp = None,
     datetime = None, cache = ms\<rparr>"

definition example_snapshot :: snapshot where
  "example_snapshot = \<lparr>s_bids = [(100, 1)], s_asks = [(101, 2)], s_nonce = 10\<rparr>"

definition example_client :: client where
  "example_client =
     \<lparr>subscriptions = [(''orderbook_btc_usdc'', orderbook_subscription example_market)],
      calls = []\<rparr>"

definition example_ripio :: "orderbook \<Rightarrow> ripio" where
  "example_ripio ob = initial\<lparr>orderbooks := [(''BTC/USDC'', ob)]\<rparr>"

text \<open>
  Python's \<open>str\<close> of the values an \<open>args\<close> entry holds, for strings that \<open>repr\<close> writes
  between single quotes unchanged (no quote, backslash or control character in them):
  a string is itself, a list is its elements' \<open>repr\<close> between brackets.
\<close>

fun python_repr_list :: "string list \<Rightarrow> string" where
  "python_repr_list [] = []"
| "python_repr_list [x] = [CHR 0x27] @ x @ [CHR 0x27]"
| "python_repr_list (x # y # ys) = [CHR 0x27] @ x @ [CHR 0x27] @ '', '' @ python_repr_list (y # ys)"

definition python_str :: "jvalue \<Rightarrow> string" where
  "python_str v = (case v of JString s \<Rightarrow> s | JList xs \<Rightarrow> ''['' @ python_repr_list xs @ '']'')"

definition xbtusd :: market where
  "xbtusd = \<lparr>market_id = ''XBTUSD'', market_symbol = ''BTC/USD''\<rparr>"

text \<open>
  A bitmex instance with the options of \<open>describe\<close> and one market; its order book is
  the number of levels stored so far.
\<close>

definition example_bitmex :: "nat bitmex_env" where
  "example_bitmex =
     \<lparr>bm_id = ''bitmex'',
      bm_load_markets = None,
      bm_market_of = (\<lambda>s. if s = Some ''BTC/USD'' then Inr xbtusd
                           else Inl (OtherError ''BadSymbol'')),
      markets_by_id = [(''XBTUSD'', xbtusd)],
      watchOrderBookLevel = Some ''orderBookL2'',
      bm_ws_url = ''wss://www.bitmex.com/realtime'',
      indexed_order_book = (\<lambda>depth. 0),
      store_level = (\<lambda>sd p z i ob. Suc ob),
      restore_level = (\<lambda>sd p z i ob. Suc ob),
      str_of = python_str\<rparr>"

text \<open>
  The error frame the venue sends for a rate-limited subscribe, echoing the request
  \<open>watch_order_book\<close> sent: \<open>{"status": 429, "error": "Rate limit exceeded, retry in 1
  seconds.", "request": {"op": "subscribe", "args": ["orderBookL2:XBTUSD"]}}\<close>.
\<close>

definition rate_limit_frame :: frame where
  "rate_limit_frame =
     \<lparr>f_error = Some ''Rate limit exceeded, retry in 1 seconds.'',
      f_request = Some \<lparr>r_op = Some ''subscribe'', args = Some (JList [''orderBookL2:XBTUSD''])\<rparr>,
      f_table = None, f_action = None, f_data = None, f_filter_symbol = None\<rparr>"

text \<open>The first frame of an order book subscription for a table and market id.\<close>

definition partial_frame :: "string \<Rightarrow> string \<Rightarrow> row list \<Rightarrow> frame" where
  "partial_frame t mid rows =
     \<lparr>f_error = None, f_request = None, f_table = Some t, f_action = Some ''partial'',
      f_data = Some rows, f_filter_symbol = Some mid\<rparr>"

section \<open>ripio: applying one delta frame\<close>


lemma py_gt_less: "n < u \<Longrightarrow> py_gt (Some u) (Some n) = Inr True"
  by (simp add: py_gt_def)

lemma handle_deltas_three_args:
  "handle_deltas e [a, b, c] ob = (Raise TypeError, ob)"
  by (simp add: handle_deltas_def)

lemma handle_order_book_message_book:
  "snd (handle_order_book_message e cl m ob) = ob"
  by (simp add: handle_order_book_message_def handle_deltas_three_args
      split: option.split sum.split bool.split)

lemma handle_order_book_message_client:
  "handle_order_book_message e cl m ob = handle_order_book_message e cl' m ob"
  by (simp add: handle_order_book_message_def)


lemma example_frame_decoded:
  "payload (example_frame ''id=11'') = Some ''id=11''
   \<and> decode example_env ''id=11'' = Inr (example_data 11)
   \<and> updated_id (example_data 11) = Some 11"
  "payload (example_frame ''id=99739'') = Some ''id=99739''
   \<and> decode example_env ''id=99739'' = Inr (example_data 99739)
   \<and> updated_id (example_data 99739) = Some 99739"
  "payload (example_frame ''id=99740'') = Some ''id=99740''
   \<and> decode example_env ''id=99740'' = Inr (example_data 99740)
   \<and> updated_id (example_data 99740) = Some 99740"
  by (simp_all add: example_frame_def example_env_def example_decode_def example_data_def)

text \<open>
  Claim C1, at the spec's scenario of two deltas arriving out of order, on a book whose
  nonce is 10. The delta with \<open>updated_id\<close> 99740 is newer than the book, so
  \<open>handle_order_book_message\<close> reaches the three-argument call of \<open>handle_deltas\<close> and
  raises TypeError: the nonce is still 10, not 99740. The later delta with \<open>updated_id\<close>
  99739 is then newer than the book as well: it is not ignored, it raises TypeError too.
  (A delta at or below the nonce of the book does return with the book unchanged, and no
  call lowers the nonce: \<open>handle_order_book_message_stale\<close>,
  \<open>handle_order_book_message_book\<close>.)
\<close>

theorem out_of_order_deltas_both_raise:
  "nonce (example_book (Some 10) []) = Some 10
   \<and> handle_order_book_message example_env example_client (example_frame ''id=99740'')
        (example_book (Some 10) []) = (Raise TypeError, example_book (Some 10) [])
   \<and> handle_order_book_message example_env example_client (example_frame ''id=99739'')
        (snd (handle_order_book_message example_env example_client (example_frame ''id=99740'')
           (example_book (Some 10) []))) = (Raise TypeError, example_book (Some 10) [])"
proof -
  have n: "nonce (example_book (Some 10) []) = Some 10" by (simp add: example_book_def)
  have a: "handle_order_book_message example_env example_client (example_frame ''id=99740'')
        (example_book (Some 10) []) = (Raise TypeError, example_book (Some 10) [])"
    using example_frame_decoded(3) n
    by (simp add: handle_order_book_message_def handle_deltas_three_args py_gt_less)
  have b: "handle_order_book_message example_env example_client (example_frame ''id=99739'')
        (example_book (Some 10) []) = (Raise TypeError, example_book (Some 10) [])"
    using example_frame_decoded(2) n
    by (simp add: handle_order_book_message_def handle_deltas_three_args py_gt_less)
  from n a b show ?thesis by simp
qed

text \<open>
  Claim C9. For a delta frame whose decoded \<open>updated_id\<close> is strictly greater than the
  set nonce of the book, \<open>handle_order_book_message\<close> calls \<open>handle_deltas\<close> with three
  arguments (book side, deltas, nonce) where the method takes two: that call raises
  TypeError with the book untouched, and so does \<open>handle_order_book_message\<close>, before
  any price level, the nonce or the timestamp is written. No frame at all changes the
  book through this function.
\<close>

theorem newer_delta_raises_TypeError:
  assumes "payload m = Some p" and "decode e p = Inr d" and "updated_id d = Some u"
    and "nonce ob = Some n" and "n < u"
  shows "handle_deltas e
            [Side Asks, Deltas (case sell d of None \<Rightarrow> [] | Some ds \<Rightarrow> ds), Nonce (nonce ob)] ob
           = (Raise TypeError, ob)
       \<and> handle_order_book_message e cl m ob = (Raise TypeError, ob)
       \<and> snd (handle_order_book_message e cl m' ob') = ob'"
  using assms
  by (simp add: handle_order_book_message_def handle_deltas_three_args py_gt_less
      handle_order_book_message_book [unfolded handle_order_book_message_def])

theorem newer_delta_raises_TypeError_witness:
  "nonce (example_book (Some 10) []) = Some 10 \<and> (10::int) < 11
   \<and> handle_order_book_message example_env example_client (example_frame ''id=11'')
        (example_book (Some 10) []) = (Raise TypeError, example_book (Some 10) [])"
proof -
  have n: "nonce (example_book (Some 10) []) = Some 10" by (simp add: example_book_def)
  from example_frame_decoded(1)
  have "handle_order_book_message example_env example_client (example_frame ''id=11'')
        (example_book (Some 10) []) = (Raise TypeError, example_book (Some 10) [])"
    using newer_delta_raises_TypeError [of "example_frame ''id=11''" "''id=11''" example_env
        "example_data 11" 11 "example_book (Some 10) []" 10 example_client] n
    by simp
  with n show ?thesis by simp
qed

section \<open>ripio: buffering, snapshot and routing\<close>



text \<open>
  Claim C7. \<open>handle_message\<close> spawns the acknowledgment for a frame that has a message
  id and then, whatever the frame holds, calls the handler stored in the first
  subscription of \<open>client.subscriptions\<close> with that subscription; when there is no
  subscription, or the first one stores no handler, it returns the frame with the client
  untouched, and does not raise.
\<close>

theorem handle_message_routes_to_first_subscription:
  "ripio_handle_message e cl m st =
     (case first_subscription cl of
        None \<Rightarrow> (Return (RMessage m), cl, acknowledged m st)
      | Some (h, sub) \<Rightarrow> call_method h e cl m sub (acknowledged m st))"
  by (cases "subscriptions cl")
    (auto simp: ripio_handle_message_def first_subscription_def acknowledged_def
      safe_value_def safe_string_at_def empty_subscription_def Let_def split: option.split)

theorem handle_message_routes_to_first_subscription_witness:
  "ripio_handle_message example_env example_client (example_frame ''id=11'')
      (example_ripio (example_book None []))
     = ripio_handle_order_book example_env example_client (example_frame ''id=11'')
         (orderbook_subscription example_market)
         ((example_ripio (example_book None []))\<lparr>spawned := [''CAAQAA=='']\<rparr>)
   \<and> ripio_handle_message example_env new_client (example_frame ''id=11'') initial
     = (Return (RMessage (example_frame ''id=11'')), new_client,
        initial\<lparr>spawned := [''CAAQAA=='']\<rparr>)"
proof -
  have a: "first_subscription example_client
      = Some (Handle_order_book, orderbook_subscription example_market)"
    by (simp add: first_subscription_def example_client_def orderbook_subscription_def)
  have b: "first_subscription new_client = None"
    by (simp add: first_subscription_def new_client_def)
  have c: "acknowledged (example_frame ''id=11'') st = st\<lparr>spawned := spawned st @ [''CAAQAA=='']\<rparr>" for st
    by (simp add: acknowledged_def example_frame_def)
  from handle_message_routes_to_first_subscription [of example_env example_client
      "example_frame ''id=11''" "example_ripio (example_book None [])"]
    handle_message_routes_to_first_subscription [of example_env new_client
      "example_frame ''id=11''" initial]
  show ?thesis
    by (simp add: a b c call_method_def example_ripio_def initial_def)
qed

text \<open>
  Claim C2, at the spec's own scenario: the book is buffering with one frame in its
  pending buffer, the delta \<open>{buy: [{price: 100, amount: 0}], sell: [], updated_id: 11}\<close>,
  and the fetch hands back the snapshot \<open>{bids: [[100, 1]], asks: [[101, 2]], nonce: 10}\<close>.
  \<open>fetch_order_book_snapshot\<close> installs the snapshot and replays the frame; the replay
  raises TypeError at the three-argument call of \<open>handle_deltas\<close>, so the waiter of the
  routing key is rejected with TypeError and not resolved, the bid at 100 is still in
  the book, the nonce is 10 and the frame is still in the buffer.
\<close>

theorem replayed_newer_delta_rejects_waiter:
  "fetch_order_book_snapshot example_env (Return example_snapshot) example_client
      (orderbook_subscription example_market)
      (example_ripio (example_book None [example_frame ''id=11'']))
     = (example_client\<lparr>calls := [Reject TypeError (Some ''orderbook_btc_usdc'')]\<rparr>,
        example_ripio (example_book (Some 10) [example_frame ''id=11'']))"
proof -
  have h: "orderbook_hash example_market = ''orderbook_btc_usdc''"
    by (simp add: orderbook_hash_def example_market_def lower_def lower_char_def)
  have r: "reset example_snapshot (example_book None [example_frame ''id=11''])
      = example_book (Some 10) [example_frame ''id=11'']"
    by (simp add: reset_def example_snapshot_def example_book_def)
  have n: "nonce (example_book (Some 10) ms) = Some 10" for ms by (simp add: example_book_def)
  have m: "handle_order_book_message example_env example_client (example_frame ''id=11'')
      (example_book (Some 10) [example_frame ''id=11''])
      = (Raise TypeError, example_book (Some 10) [example_frame ''id=11''])"
    using example_frame_decoded(1) n
    by (simp add: handle_order_book_message_def handle_deltas_three_args py_gt_less)
  have s: "symbol (orderbook_subscription example_market) = Some ''BTC/USDC''"
    and k: "messageHash (orderbook_subscription example_market) = Some ''orderbook_btc_usdc''"
    by (simp_all add: orderbook_subscription_def h) (simp add: example_market_def)
  have b: "map_of (orderbooks (example_ripio ob)) ''BTC/USDC'' = Some ob" for ob
    by (simp add: example_ripio_def)
  have c: "cache (example_book None [example_frame ''id=11'']) = [example_frame ''id=11'']"
    by (simp add: example_book_def)
  have u: "unroll example_env example_client [example_frame ''id=11'']
      (example_book (Some 10) [example_frame ''id=11''])
      = (Raise TypeError, example_book (Some 10) [example_frame ''id=11''])"
    by (simp add: m)
  show ?thesis
    by (simp add: fetch_order_book_snapshot_def s k b c r u del: unroll.simps)
      (simp add: example_ripio_def example_client_def)
qed

section \<open>ripio: one snapshot fetch per routing key\<close>

lemma watch_raises:
  "load_markets e = Some x \<Longrightarrow> ripio_watch_order_book e s st = (Raise x, st)"
  "load_markets e = None \<Longrightarrow> market_of e (Some s) = Inl x \<Longrightarrow> ripio_watch_order_book e s st = (Raise x, st)"
  by (simp_all add: ripio_watch_order_book_def)

lemma watch_attached:
  assumes "load_markets e = None" and "market_of e (Some s) = Inr mk"
    and "subscribed (orderbook_url e mk) (orderbook_hash mk) st"
  shows "ripio_watch_order_book e s st =
     (Return (orderbook_url e mk, orderbook_hash mk),
      st\<lparr>clients := AList.update (orderbook_url e mk) (client_of (orderbook_url e mk) st) (clients st),
         watching := watching st @ [(orderbook_url e mk, orderbook_hash mk)]\<rparr>)"
  using assms by (simp add: ripio_watch_order_book_def subscribed_def Let_def)

lemma watch_first:
  assumes "load_markets e = None" and "market_of e (Some s) = Inr mk"
    and "\<not> subscribed (orderbook_url e mk) (orderbook_hash mk) st"
  shows "ripio_watch_order_book e s st =
     (Return (orderbook_url e mk, orderbook_hash mk),
      st\<lparr>orderbooks := AList.update (market_symbol mk) order_book (orderbooks st),
         clients := AList.update (orderbook_url e mk)
            ((client_of (orderbook_url e mk) st)
               \<lparr>subscriptions := AList.update (orderbook_hash mk) (orderbook_subscription mk)
                  (subscriptions (client_of (orderbook_url e mk) st))\<rparr>)
            (clients st),
         delayed := delayed st @
            [(case snapshot_delay e of None \<Rightarrow> rateLimit e | Some dl \<Rightarrow> dl,
              orderbook_url e mk, orderbook_subscription mk)],
         watching := watching st @ [(orderbook_url e mk, orderbook_hash mk)]\<rparr>)"
  using assms by (simp add: ripio_watch_order_book_def subscribed_def Let_def)

lemma scheduled_same: "delayed st' = delayed st \<Longrightarrow> scheduled url h st' = scheduled url h st"
  by (simp add: scheduled_def)

lemma scheduled_more:
  "delayed st' = delayed st @ [(dl, u, sub)] \<Longrightarrow>
   scheduled url h st' = scheduled url h st + (if u = url \<and> messageHash sub = Some h then 1 else 0)"
  by (simp add: scheduled_def)

lemma subscribed_same:
  "clients st' = AList.update u (client_of u st) (clients st) \<Longrightarrow>
   subscribed url h st' = subscribed url h st"
  by (simp add: subscribed_def client_of_def update_conv' split: option.split)

lemma subscribed_more:
  "clients st' = AList.update u
      ((client_of u st)\<lparr>subscriptions := AList.update k sub (subscriptions (client_of u st))\<rparr>)
      (clients st) \<Longrightarrow>
   subscribed url h st' = (subscribed url h st \<or> (url = u \<and> h = k))"
  by (auto simp: subscribed_def client_of_def update_conv' dom_update split: option.split)

lemma fetch_invariant_step: "fetch_invariant st \<Longrightarrow> fetch_invariant (snd (ripio_watch_order_book e s st))"
proof (cases "load_markets e")
  case (Some x)
  assume "fetch_invariant st" with Some show ?thesis by (simp add: watch_raises)
next
  case None
  assume i: "fetch_invariant st"
  show ?thesis
  proof (cases "market_of e (Some s)")
    case (Inl x)
    with None i show ?thesis by (simp add: watch_raises)
  next
    case (Inr mk)
    let ?u = "orderbook_url e mk" and ?h = "orderbook_hash mk"
    let ?st = "snd (ripio_watch_order_book e s st)"
    show ?thesis
    proof (cases "subscribed ?u ?h st")
      case True
      have d: "delayed ?st = delayed st"
        and c: "clients ?st = AList.update ?u (client_of ?u st) (clients st)"
        by (simp_all add: watch_attached [OF None Inr True])
      show ?thesis using i
        by (simp add: fetch_invariant_def scheduled_same [OF d] subscribed_same [OF c])
    next
      case False
      from i False have z: "scheduled ?u ?h st = 0"
        unfolding fetch_invariant_def by (metis not_gr_zero)
      have d: "delayed ?st = delayed st @
            [(case snapshot_delay e of None \<Rightarrow> rateLimit e | Some dl \<Rightarrow> dl,
              ?u, orderbook_subscription mk)]"
        and c: "clients ?st = AList.update ?u
            ((client_of ?u st)
               \<lparr>subscriptions := AList.update ?h (orderbook_subscription mk)
                  (subscriptions (client_of ?u st))\<rparr>)
            (clients st)"
        by (simp_all add: watch_first [OF None Inr False])
      have m: "messageHash (orderbook_subscription mk) = Some ?h"
        by (simp add: orderbook_subscription_def)
      show ?thesis using i z
        by (auto simp: fetch_invariant_def scheduled_more [OF d] subscribed_more [OF c] m)
    qed
  qed
qed

lemma fetch_invariant_initial: "fetch_invariant initial"
  by (simp add: fetch_invariant_def scheduled_def initial_def)

lemma fetch_invariant_watch_all: "fetch_invariant st \<Longrightarrow> fetch_invariant (watch_all e ss st)"
  by (induction ss arbitrary: st) (simp_all add: fetch_invariant_step)

text \<open>
  Claim C4. After any run of \<open>watch_order_book\<close> calls on a fresh instance, no
  connection and routing key has more than one snapshot fetch scheduled. A call whose
  routing key is already in the subscriptions of its connection awaits that key and
  leaves the order books, the scheduled fetches and the connection as they were; a call
  whose key is not yet there stores a fresh order book, registers the subscription and
  schedules exactly one fetch, after the configured delay.
\<close>

theorem one_snapshot_fetch_per_routing_key:
  "scheduled url h (watch_all e ss initial) \<le> 1
   \<and> (load_markets e = None \<and> market_of e (Some s) = Inr mk
        \<and> subscribed (orderbook_url e mk) (orderbook_hash mk) st \<longrightarrow>
       fst (ripio_watch_order_book e s st) = Return (orderbook_url e mk, orderbook_hash mk)
       \<and> orderbooks (snd (ripio_watch_order_book e s st)) = orderbooks st
       \<and> delayed (snd (ripio_watch_order_book e s st)) = delayed st
       \<and> client_of (orderbook_url e mk) (snd (ripio_watch_order_book e s st))
           = client_of (orderbook_url e mk) st)
   \<and> (load_markets e = None \<and> market_of e (Some s) = Inr mk
        \<and> \<not> subscribed (orderbook_url e mk) (orderbook_hash mk) st \<longrightarrow>
       fst (ripio_watch_order_book e s st) = Return (orderbook_url e mk, orderbook_hash mk)
       \<and> delayed (snd (ripio_watch_order_book e s st)) = delayed st @
            [(case snapshot_delay e of None \<Rightarrow> rateLimit e | Some dl \<Rightarrow> dl,
              orderbook_url e mk, orderbook_subscription mk)]
       \<and> subscribed (orderbook_url e mk) (orderbook_hash mk) (snd (ripio_watch_order_book e s st))
       \<and> map_of (orderbooks (snd (ripio_watch_order_book e s st))) (market_symbol mk)
           = Some order_book)"
proof (intro conjI impI)
  show "scheduled url h (watch_all e ss initial) \<le> 1"
    using fetch_invariant_watch_all [OF fetch_invariant_initial, of e ss] by (simp add: fetch_invariant_def)
next
  assume a: "load_markets e = None \<and> market_of e (Some s) = Inr mk
        \<and> subscribed (orderbook_url e mk) (orderbook_hash mk) st"
  then have w: "ripio_watch_order_book e s st =
     (Return (orderbook_url e mk, orderbook_hash mk),
      st\<lparr>clients := AList.update (orderbook_url e mk) (client_of (orderbook_url e mk) st) (clients st),
         watching := watching st @ [(orderbook_url e mk, orderbook_hash mk)]\<rparr>)"
    by (simp add: watch_attached)
  show "fst (ripio_watch_order_book e s st) = Return (orderbook_url e mk, orderbook_hash mk)"
    and "orderbooks (snd (ripio_watch_order_book e s st)) = orderbooks st"
    and "delayed (snd (ripio_watch_order_book e s st)) = delayed st"
    and "client_of (orderbook_url e mk) (snd (ripio_watch_order_book e s st))
           = client_of (orderbook_url e mk) st"
    by (simp_all add: w client_of_def update_conv' split: option.split)
next
  assume a: "load_markets e = None \<and> market_of e (Some s) = Inr mk
        \<and> \<not> subscribed (orderbook_url e mk) (orderbook_hash mk) st"
  note w = watch_first [of e s mk st]
  show "fst (ripio_watch_order_book e s st) = Return (orderbook_url e mk, orderbook_hash mk)"
    and "delayed (snd (ripio_watch_order_book e s st)) = delayed st @
            [(case snapshot_delay e of None \<Rightarrow> rateLimit e | Some dl \<Rightarrow> dl,
              orderbook_url e mk, orderbook_subscription mk)]"
    and "subscribed (orderbook_url e mk) (orderbook_hash mk) (snd (ripio_watch_order_book e s st))"
    and "map_of (orderbooks (snd (ripio_watch_order_book e s st))) (market_symbol mk)
           = Some order_book"
    using a by (simp_all add: w subscribed_def client_of_def update_conv' dom_update)
qed

theorem one_snapshot_fetch_per_routing_key_witness:
  "load_markets example_env = None
   \<and> market_of example_env (Some ''BTC/USDC'') = Inr example_market
   \<and> \<not> subscribed (orderbook_url example_env example_market) (orderbook_hash example_market) initial
   \<and> subscribed (orderbook_url example_env example_market) (orderbook_hash example_market)
       (snd (ripio_watch_order_book example_env ''BTC/USDC'' initial))
   \<and> delayed (snd (ripio_watch_order_book example_env ''BTC/USDC'' initial))
       = [(50, orderbook_url example_env example_market, orderbook_subscription example_market)]
   \<and> delayed (snd (ripio_watch_order_book example_env ''BTC/USDC''
        (snd (ripio_watch_order_book example_env ''BTC/USDC'' initial))))
       = [(50, orderbook_url example_env example_market, orderbook_subscription example_market)]
   \<and> scheduled (orderbook_url example_env example_market) (orderbook_hash example_market)
        (watch_all example_env [''BTC/USDC'', ''BTC/USDC''] initial) \<le> 1"
proof -
  let ?u = "orderbook_url example_env example_market"
  let ?h = "orderbook_hash example_market"
  let ?st1 = "snd (ripio_watch_order_book example_env ''BTC/USDC'' initial)"
  have l: "load_markets example_env = None" by (simp add: example_env_def)
  have k: "market_of example_env (Some ''BTC/USDC'') = Inr example_market"
    by (simp add: example_env_def)
  have f: "\<not> subscribed ?u ?h initial"
    by (simp add: subscribed_def client_of_def initial_def new_client_def)
  have d: "(case snapshot_delay example_env of None \<Rightarrow> rateLimit example_env | Some dl \<Rightarrow> dl) = 50"
    by (simp add: example_env_def)
  note t = one_snapshot_fetch_per_routing_key [of ?u ?h example_env "[''BTC/USDC'', ''BTC/USDC'']"
      "''BTC/USDC''" example_market]
  from t [of initial] l k f d
  have 1: "subscribed ?u ?h ?st1"
    and 2: "delayed ?st1 = [(50, ?u, orderbook_subscription example_market)]"
    by (simp_all add: initial_def)
  from t [of ?st1] l k 1 2
  have 3: "delayed (snd (ripio_watch_order_book example_env ''BTC/USDC'' ?st1))
       = [(50, ?u, orderbook_subscription example_market)]"
    by simp
  from t [of initial]
  have 4: "scheduled ?u ?h (watch_all example_env [''BTC/USDC'', ''BTC/USDC''] initial) \<le> 1"
    by simp
  from l k f 1 2 3 4 show ?thesis by simp
qed

section \<open>ripio: a failed snapshot fetch\<close>

lemma watch_attached_run:
  assumes "load_markets e = None" and "market_of e (Some s) = Inr mk"
  shows "subscribed (orderbook_url e mk) (orderbook_hash mk) st \<Longrightarrow>
     delayed (watch_all e (replicate k s) st) = delayed st
     \<and> orderbooks (watch_all e (replicate k s) st) = orderbooks st
     \<and> subscribed (orderbook_url e mk) (orderbook_hash mk) (watch_all e (replicate k s) st)"
proof (induction k arbitrary: st)
  case 0
  then show ?case by simp
next
  case (Suc k)
  let ?st = "snd (ripio_watch_order_book e s st)"
  have d: "delayed ?st = delayed st" and o: "orderbooks ?st = orderbooks st"
    and c: "clients ?st = AList.update (orderbook_url e mk)
        (client_of (orderbook_url e mk) st) (clients st)"
    by (simp_all add: watch_attached [OF assms Suc.prems])
  from Suc.prems have "subscribed (orderbook_url e mk) (orderbook_hash mk) ?st"
    by (simp add: subscribed_same [OF c])
  from Suc.IH [OF this] d o show ?case by simp
qed

text \<open>
  Claim C5, as amended. When the snapshot fetch raises \<open>x\<close>,
  \<open>fetch_order_book_snapshot\<close> makes exactly one call on the client,
  \<open>client.reject(x, messageHash)\<close> with the subscription's routing key (for the
  subscription \<open>watch_order_book\<close> builds, the key of the symbol's market), and nothing
  else changes: the client's subscriptions and the whole instance, order books included,
  are as before. No retry follows: as the key stays registered in the connection's
  subscriptions, any number of later \<open>watch_order_book\<close> calls for the symbol schedule
  no snapshot fetch and leave the order books as they are.
\<close>

theorem failed_snapshot_fetch_rejects_waiter_without_retry:
  "fetch_order_book_snapshot e (Raise x) cl sub st
     = (cl\<lparr>calls := calls cl @ [Reject x (messageHash sub)]\<rparr>, st)
   \<and> fetch_order_book_snapshot e (Raise x) cl (orderbook_subscription mk) st
     = (cl\<lparr>calls := calls cl @ [Reject x (Some (orderbook_hash mk))]\<rparr>, st)
   \<and> subscriptions (fst (fetch_order_book_snapshot e (Raise x) cl sub st)) = subscriptions cl
   \<and> orderbooks (snd (fetch_order_book_snapshot e (Raise x) cl sub st)) = orderbooks st
   \<and> (load_markets e = None \<and> market_of e (Some s) = Inr mk
        \<and> subscribed (orderbook_url e mk) (orderbook_hash mk) st \<longrightarrow>
       delayed (watch_all e (replicate k s)
          (snd (fetch_order_book_snapshot e (Raise x) cl sub st))) = delayed st
       \<and> orderbooks (watch_all e (replicate k s)
          (snd (fetch_order_book_snapshot e (Raise x) cl sub st))) = orderbooks st
       \<and> \<not> retried_on_next_access e s (snd (fetch_order_book_snapshot e (Raise x) cl sub st)))"
proof -
  have f: "fetch_order_book_snapshot e (Raise x) cl sub st
     = (cl\<lparr>calls := calls cl @ [Reject x (messageHash sub)]\<rparr>, st)" for sub
    by (simp add: fetch_order_book_snapshot_def)
  have r: "load_markets e = None \<and> market_of e (Some s) = Inr mk
        \<and> subscribed (orderbook_url e mk) (orderbook_hash mk) st \<longrightarrow>
       delayed (watch_all e (replicate k s) st) = delayed st
       \<and> orderbooks (watch_all e (replicate k s) st) = orderbooks st
       \<and> \<not> retried_on_next_access e s st"
    using watch_attached_run [of e s mk st k] watch_attached [of e s mk st]
    by (simp add: retried_on_next_access_def)
  show ?thesis using r by (simp add: f orderbook_subscription_def)
qed

text \<open>
  The claim as stated, that the state machine remains retryable, fails: after the first
  \<open>watch_order_book\<close> call for BTC/USDC and a fetch that timed out, the next access
  schedules no fetch.
\<close>

theorem failed_snapshot_fetch_is_not_retried:
  "\<not> retried_on_next_access example_env ''BTC/USDC''
      (snd (fetch_order_book_snapshot example_env (Raise (OtherError ''RequestTimeout''))
         (client_of (orderbook_url example_env example_market)
            (snd (ripio_watch_order_book example_env ''BTC/USDC'' initial)))
         (orderbook_subscription example_market)
         (snd (ripio_watch_order_book example_env ''BTC/USDC'' initial))))"
proof -
  let ?u = "orderbook_url example_env example_market"
  let ?h = "orderbook_hash example_market"
  let ?st1 = "snd (ripio_watch_order_book example_env ''BTC/USDC'' initial)"
  have l: "load_markets example_env = None" by (simp add: example_env_def)
  have k: "market_of example_env (Some ''BTC/USDC'') = Inr example_market"
    by (simp add: example_env_def)
  have f: "\<not> subscribed ?u ?h initial"
    by (simp add: subscribed_def client_of_def initial_def new_client_def)
  have c: "clients ?st1 = AList.update ?u
            ((client_of ?u initial)
               \<lparr>subscriptions := AList.update ?h (orderbook_subscription example_market)
                  (subscriptions (client_of ?u initial))\<rparr>)
            (clients initial)"
    by (simp add: watch_first [OF l k f])
  have s1: "subscribed ?u ?h ?st1" by (simp add: subscribed_more [OF c])
  have "snd (fetch_order_book_snapshot example_env (Raise (OtherError ''RequestTimeout''))
         (client_of ?u ?st1) (orderbook_subscription example_market) ?st1) = ?st1"
    by (simp add: fetch_order_book_snapshot_def)
  then show ?thesis
    using watch_attached [OF l k s1] by (simp add: retried_on_next_access_def)
qed

theorem failed_snapshot_fetch_rejects_waiter_without_retry_witness:
  "load_markets example_env = None
   \<and> market_of example_env (Some ''BTC/USDC'') = Inr example_market
   \<and> subscribed (orderbook_url example_env example_market) (orderbook_hash example_market)
       (snd (ripio_watch_order_book example_env ''BTC/USDC'' initial))
   \<and> fetch_order_book_snapshot example_env (Raise (OtherError ''RequestTimeout'')) example_client
        (orderbook_subscription example_market)
        (snd (ripio_watch_order_book example_env ''BTC/USDC'' initial))
       = (example_client\<lparr>calls := [Reject (OtherError ''RequestTimeout'')
             (Some ''orderbook_btc_usdc'')]\<rparr>,
          snd (ripio_watch_order_book example_env ''BTC/USDC'' initial))
   \<and> delayed (watch_all example_env (replicate 3 ''BTC/USDC'')
        (snd (fetch_order_book_snapshot example_env (Raise (OtherError ''RequestTimeout''))
           example_client (orderbook_subscription example_market)
           (snd (ripio_watch_order_book example_env ''BTC/USDC'' initial)))))
       = delayed (snd (ripio_watch_order_book example_env ''BTC/USDC'' initial))
   \<and> map_of (orderbooks (watch_all example_env (replicate 3 ''BTC/USDC'')
        (snd (fetch_order_book_snapshot example_env (Raise (OtherError ''RequestTimeout''))
           example_client (orderbook_subscription example_market)
           (snd (ripio_watch_order_book example_env ''BTC/USDC'' initial)))))) ''BTC/USDC''
       = Some order_book"
proof -
  let ?u = "orderbook_url example_env example_market"
  let ?h = "orderbook_hash example_market"
  let ?st1 = "snd (ripio_watch_order_book example_env ''BTC/USDC'' initial)"
  let ?x = "OtherError ''RequestTimeout''"
  have l: "load_markets example_env = None" by (simp add: example_env_def)
  have k: "market_of example_env (Some ''BTC/USDC'') = Inr example_market"
    by (simp add: example_env_def)
  have f: "\<not> subscribed ?u ?h initial"
    by (simp add: subscribed_def client_of_def initial_def new_client_def)
  have c: "clients ?st1 = AList.update ?u
            ((client_of ?u initial)
               \<lparr>subscriptions := AList.update ?h (orderbook_subscription example_market)
                  (subscriptions (client_of ?u initial))\<rparr>)
            (clients initial)"
    and o: "orderbooks ?st1 = AList.update (market_symbol example_market) order_book
            (orderbooks initial)"
    by (simp_all add: watch_first [OF l k f])
  have s1: "subscribed ?u ?h ?st1" by (simp add: subscribed_more [OF c])
  have b: "map_of (orderbooks ?st1) ''BTC/USDC'' = Some order_book"
    by (simp add: o update_conv' example_market_def)
  have h: "?h = ''orderbook_btc_usdc''"
    by (simp add: orderbook_hash_def example_market_def lower_def lower_char_def)
  have m: "messageHash (orderbook_subscription example_market) = Some ''orderbook_btc_usdc''"
    by (simp add: orderbook_subscription_def h)
  have e: "calls example_client = []" by (simp add: example_client_def)
  note t = failed_snapshot_fetch_rejects_waiter_without_retry [of example_env ?x example_client "orderbook_subscription example_market" ?st1
      example_market "''BTC/USDC''" 3]
  from t have 1: "fetch_order_book_snapshot example_env (Raise ?x) example_client
        (orderbook_subscription example_market) ?st1
       = (example_client\<lparr>calls := calls example_client @
            [Reject ?x (messageHash (orderbook_subscription example_market))]\<rparr>, ?st1)"
    by blast
  from t l k s1 have 2: "delayed (watch_all example_env (replicate 3 ''BTC/USDC'')
        (snd (fetch_order_book_snapshot example_env (Raise ?x) example_client
           (orderbook_subscription example_market) ?st1))) = delayed ?st1"
    and 3: "orderbooks (watch_all example_env (replicate 3 ''BTC/USDC'')
        (snd (fetch_order_book_snapshot example_env (Raise ?x) example_client
           (orderbook_subscription example_market) ?st1))) = orderbooks ?st1"
    by blast+
  from 1 have r1: "fetch_order_book_snapshot example_env (Raise ?x) example_client
        (orderbook_subscription example_market) ?st1
       = (example_client\<lparr>calls := [Reject ?x (Some ''orderbook_btc_usdc'')]\<rparr>, ?st1)"
    by (simp only: m e append_Nil)
  have 4: "map_of (orderbooks (watch_all example_env (replicate 3 ''BTC/USDC'')
        (snd (fetch_order_book_snapshot example_env (Raise ?x) example_client
           (orderbook_subscription example_market) ?st1)))) ''BTC/USDC'' = Some order_book"
    by (simp only: 3 b)
  show ?thesis by (intro conjI l k s1 r1 2 4)
qed

section \<open>bitmex\<close>

lemma resolved_keys_append:
  "resolved_keys (a @ b) = resolved_keys a @ resolved_keys b"
  by (induction a rule: resolved_keys.induct) simp_all

lemma handle_error_message_keys:
  "resolved_keys (snd (handle_error_message e cl m)) = resolved_keys cl"
  by (simp add: handle_error_message_def resolved_keys_append Let_def split: option.split)

lemma resolve_updated_keys:
  "set (resolved_keys (snd (resolve_updated e tbl mids obs cl)))
     \<subseteq> set (resolved_keys cl) \<union> {Some (t @ '':'' @ mid) | t mid. tbl = Some t}"
proof (induction mids arbitrary: cl)
  case Nil
  show ?case by simp
next
  case (Cons mid mids)
  show ?case
  proof (cases tbl)
    case None
    then show ?thesis by simp
  next
    case (Some t)
    show ?thesis
      using Cons.IH [of "cl @ [Resolve ob (Some (t @ '':'' @ mid))]" for ob] Some
      by (auto simp: resolved_keys_append split: option.split)
  qed
qed

lemma bitmex_handle_order_book_keys:
  "set (resolved_keys (fst (snd (bitmex_handle_order_book e cl m obs))))
     \<subseteq> set (resolved_keys cl) \<union> {Some (t @ '':'' @ mid) | t mid. f_table m = Some t}"
proof (cases "f_action m = Some ''partial''")
  case True
  then show ?thesis
    by (auto simp: bitmex_handle_order_book_def Let_def resolved_keys_append
        split: option.split)
next
  case False
  obtain x nu obs' where u: "update_rows e (f_action m)
      (case f_data m of None \<Rightarrow> [] | Some rs \<Rightarrow> rs) [] obs = (x, nu, obs')"
    by (metis prod_cases3)
  obtain r cl' where r: "resolve_updated e (f_table m) (map fst nu) obs' cl = (r, cl')"
    by (metis prod.exhaust)
  from resolve_updated_keys [of e "f_table m" "map fst nu" obs' cl] r
  have "set (resolved_keys cl')
     \<subseteq> set (resolved_keys cl) \<union> {Some (t @ '':'' @ mid) | t mid. f_table m = Some t}"
    by simp
  with False u r show ?thesis
    by (cases x) (simp_all add: bitmex_handle_order_book_def Let_def)
qed

lemma methods_tables:
  "safe_value methods tbl = Some hnd \<Longrightarrow>
   tbl = Some ''orderBookL2'' \<or> tbl = Some ''orderBookL2_25'' \<or> tbl = Some ''orderBook10''"
  by (cases tbl) (auto simp: safe_value_def methods_def split: if_splits)

lemma bitmex_handle_message_keys:
  "set (resolved_keys (fst (snd (bitmex_handle_message e cl m obs))))
     \<subseteq> set (resolved_keys cl) \<union>
        {Some (t @ '':'' @ mid) | t mid.
           f_table m = Some t \<and> t \<in> {''orderBookL2'', ''orderBookL2_25'', ''orderBook10''}}"
proof -
  obtain b cl1 where h: "handle_error_message e cl m = (b, cl1)"
    by (metis prod.exhaust)
  with handle_error_message_keys [of e cl m]
  have k1: "resolved_keys cl1 = resolved_keys cl" by simp
  show ?thesis
  proof (cases "b = Return True \<and> safe_value methods (f_table m) \<noteq> None")
    case False
    with h k1 show ?thesis
      by (auto simp: bitmex_handle_message_def split: outcome.split bool.split option.split)
  next
    case True
    then obtain hnd where hnd: "safe_value methods (f_table m) = Some hnd" by auto
    obtain r cl2 obs2 where o: "bitmex_handle_order_book e cl1 m obs = (r, cl2, obs2)"
      by (metis prod_cases3)
    from bitmex_handle_order_book_keys [of e cl1 m obs] o k1
    have "set (resolved_keys cl2)
       \<subseteq> set (resolved_keys cl) \<union> {Some (t @ '':'' @ mid) | t mid. f_table m = Some t}"
      by simp
    moreover from methods_tables [OF hnd]
    have "f_table m = Some ''orderBookL2'' \<or> f_table m = Some ''orderBookL2_25''
        \<or> f_table m = Some ''orderBook10''" .
    ultimately have "set (resolved_keys cl2)
     \<subseteq> set (resolved_keys cl) \<union>
        {Some (t @ '':'' @ mid) | t mid.
           f_table m = Some t \<and> t \<in> {''orderBookL2'', ''orderBookL2_25'', ''orderBook10''}}"
      by auto
    with True h hnd o show ?thesis
      by (cases hnd; cases r) (simp_all add: bitmex_handle_message_def)
  qed
qed

lemma L10_never_a_table_key:
  "t \<in> {''orderBookL2'', ''orderBookL2_25'', ''orderBook10''} \<Longrightarrow>
   ''orderBookL10:'' @ i \<noteq> t @ '':'' @ mid"
  by auto

lemma bitmex_handle_message_L10:
  "Some (''orderBookL10:'' @ i) \<notin> set (resolved_keys cl) \<Longrightarrow>
   Some (''orderBookL10:'' @ i) \<notin> set (resolved_keys (fst (snd (bitmex_handle_message e cl m obs))))"
  using bitmex_handle_message_keys [of e cl m obs] L10_never_a_table_key [of _ i]
  by fastforce

lemma feed_L10:
  "Some (''orderBookL10:'' @ i) \<notin> set (resolved_keys cl) \<Longrightarrow>
   Some (''orderBookL10:'' @ i) \<notin> set (resolved_keys (fst (feed e ms cl obs)))"
proof (induction ms arbitrary: cl obs)
  case Nil
  then show ?case by simp
next
  case (Cons m ms)
  obtain r cl' obs' where h: "bitmex_handle_message e cl m obs = (r, cl', obs')"
    by (metis prod_cases3)
  with bitmex_handle_message_L10 [OF Cons.prems, of e m obs]
  have "Some (''orderBookL10:'' @ i) \<notin> set (resolved_keys cl')" by simp
  from Cons.IH [OF this] h show ?case by simp
qed

lemma partial_resolves:
  assumes "map_of (markets_by_id e) mid = Some mk"
    and "t \<in> {''orderBookL2'', ''orderBookL2_25'', ''orderBook10''}"
  shows "resolved_keys (fst (snd (bitmex_handle_message e cl (partial_frame t mid rows) obs)))
     = resolved_keys cl @ [Some (t @ '':'' @ mid)]"
  using assms
  by (auto simp: bitmex_handle_message_def handle_error_message_def partial_frame_def
      safe_value_def methods_def bitmex_handle_order_book_def Let_def update_conv'
      resolved_keys_append)

text \<open>
  Claim C6, at the frame the venue sends when it rate-limits the subscribe request of
  \<open>watch_order_book\<close> for \<open>orderBookL2:XBTUSD\<close>: \<open>handle_error_message\<close> returns
  False and rejects with RateLimitExceeded, but under the routing key \<open>[\<close>, the first
  character of the string \<open>safe_string\<close> makes of the echoed \<open>args\<close> list, and not
  under \<open>orderBookL2:XBTUSD\<close>.
\<close>

theorem error_frame_rejects_first_character:
  "handle_error_message example_bitmex [] rate_limit_frame
     = (Return False,
        [Reject (RateLimitExceeded ''Rate limit exceeded, retry in 1 seconds.'') (Some ''['')])"
  by (simp add: handle_error_message_def rate_limit_frame_def example_bitmex_def python_str_def
      find_broadly_matched_key_def ws_broad_def called_def module_names_def
      builtin_names_def)

text \<open>
  Whatever \<open>str\<close> makes of the echoed \<open>args\<close>, the key \<open>handle_error_message\<close> rejects
  under is one character long.
\<close>

lemma handle_error_message_key_is_one_character:
  "handle_error_message e cl m = (r, cl') \<Longrightarrow>
   cl' = cl \<or> (\<exists>x c. cl' = cl @ [Reject x (Some [c])])"
  by (auto simp: handle_error_message_def Let_def split: option.splits if_splits)

text \<open>
  Claim C8. \<open>watch_balance\<close> never returns: when \<open>load_markets\<close> raises, the caller
  gets that exception, and when it completes, the caller gets TypeError, raised by
  calling the built-in constant \<open>NotImplemented\<close>; no "not implemented" error is ever
  raised.
\<close>

theorem watch_balance_raises_TypeError:
  "watch_balance (e\<lparr>bm_load_markets := None\<rparr>) = Raise TypeError
   \<and> watch_balance (e\<lparr>bm_load_markets := Some x\<rparr>) = Raise x
   \<and> watch_balance example_bitmex = Raise TypeError"
  by (simp add: watch_balance_def called_def module_names_def builtin_names_def
      example_bitmex_def)

lemma watch_limit_10:
  "bm_load_markets e = None \<Longrightarrow> bm_market_of e (Some sy) = Inr mk \<Longrightarrow>
   bitmex_watch_order_book e sy (Some 10)
     = Return (bm_ws_url e, ''orderBookL10:'' @ market_id mk,
         \<lparr>r_op = Some ''subscribe'', args = Some (JList [''orderBookL10:'' @ market_id mk])\<rparr>)"
  by (simp add: bitmex_watch_order_book_def Let_def)

lemma watch_limit_25:
  "bm_load_markets e = None \<Longrightarrow> bm_market_of e (Some sy) = Inr mk \<Longrightarrow>
   bitmex_watch_order_book e sy (Some 25)
     = Return (bm_ws_url e, ''orderBookL2_25:'' @ market_id mk,
         \<lparr>r_op = Some ''subscribe'', args = Some (JList [''orderBookL2_25:'' @ market_id mk])\<rparr>)"
  by (simp add: bitmex_watch_order_book_def Let_def)

lemma watch_limit_None:
  "bm_load_markets e = None \<Longrightarrow> bm_market_of e (Some sy) = Inr mk \<Longrightarrow>
   (case watchOrderBookLevel e of None \<Rightarrow> ''orderBookL2'' | Some l \<Rightarrow> l) = lv \<Longrightarrow>
   bitmex_watch_order_book e sy None
     = Return (bm_ws_url e, lv @ '':'' @ market_id mk,
         \<lparr>r_op = Some ''subscribe'', args = Some (JList [lv @ '':'' @ market_id mk])\<rparr>)"
  by (simp add: bitmex_watch_order_book_def Let_def)

text \<open>
  Claim C10. For \<open>limit = 10\<close> \<open>watch_order_book\<close> awaits the routing key
  \<open>orderBookL10:<marketId>\<close>. \<open>handle_message\<close> hands frames to \<open>handle_order_book\<close>
  for the tables \<open>orderBookL2\<close>, \<open>orderBookL2_25\<close> and \<open>orderBook10\<close> only, and every
  key it resolves is \<open><table>:<marketId>\<close> for the frame's table, one of those three. So
  whatever frames the connection is fed, the key awaited for \<open>limit = 10\<close> is never
  resolved. For \<open>limit = 25\<close> the key awaited is \<open>orderBookL2_25:<marketId>\<close>, and for
  no limit it is \<open><level>:<marketId>\<close> for the configured level (\<open>orderBookL2\<close> as
  \<open>describe\<close> sets it, and when the option is missing); the first frame of a dispatched
  table for a known market resolves exactly \<open><table>:<marketId>\<close>: the keys coincide.
\<close>

theorem orderBookL10_key_is_never_resolved:
  assumes "bm_load_markets e = None" and "bm_market_of e (Some sy) = Inr mk"
  shows "bitmex_watch_order_book e sy (Some 10)
           = Return (bm_ws_url e, ''orderBookL10:'' @ market_id mk,
               \<lparr>r_op = Some ''subscribe'', args = Some (JList [''orderBookL10:'' @ market_id mk])\<rparr>)
       \<and> map fst methods = [''orderBookL2'', ''orderBookL2_25'', ''orderBook10'']
       \<and> set (resolved_keys (fst (snd (bitmex_handle_message e cl m obs))))
            \<subseteq> set (resolved_keys cl) \<union>
               {Some (t @ '':'' @ mid) | t mid. f_table m = Some t \<and> t \<in> set (map fst methods)}
       \<and> Some (''orderBookL10:'' @ market_id mk) \<notin> set (resolved_keys (fst (feed e ms [] obs)))
       \<and> bitmex_watch_order_book e sy (Some 25)
           = Return (bm_ws_url e, ''orderBookL2_25:'' @ market_id mk,
               \<lparr>r_op = Some ''subscribe'', args = Some (JList [''orderBookL2_25:'' @ market_id mk])\<rparr>)
       \<and> ((case watchOrderBookLevel e of None \<Rightarrow> ''orderBookL2'' | Some l \<Rightarrow> l) = lv \<longrightarrow>
            bitmex_watch_order_book e sy None
              = Return (bm_ws_url e, lv @ '':'' @ market_id mk,
                  \<lparr>r_op = Some ''subscribe'', args = Some (JList [lv @ '':'' @ market_id mk])\<rparr>))
       \<and> (map_of (markets_by_id e) (market_id mk) = Some mk' \<and> t \<in> set (map fst methods) \<longrightarrow>
            resolved_keys (fst (snd (bitmex_handle_message e cl
               (partial_frame t (market_id mk) rows) obs)))
              = resolved_keys cl @ [Some (t @ '':'' @ market_id mk)])"
proof -
  have m: "map fst methods = [''orderBookL2'', ''orderBookL2_25'', ''orderBook10'']"
    by (simp add: methods_def)
  have k: "set (resolved_keys (fst (snd (bitmex_handle_message e cl m obs))))
            \<subseteq> set (resolved_keys cl) \<union>
               {Some (t @ '':'' @ mid) | t mid. f_table m = Some t \<and> t \<in> set (map fst methods)}"
    using bitmex_handle_message_keys [of e cl m obs] by (simp add: m)
  have f: "Some (''orderBookL10:'' @ market_id mk) \<notin> set (resolved_keys (fst (feed e ms [] obs)))"
    by (rule feed_L10) simp
  have p: "map_of (markets_by_id e) (market_id mk) = Some mk' \<and> t \<in> set (map fst methods) \<longrightarrow>
            resolved_keys (fst (snd (bitmex_handle_message e cl
               (partial_frame t (market_id mk) rows) obs)))
              = resolved_keys cl @ [Some (t @ '':'' @ market_id mk)]"
    using partial_resolves [of e "market_id mk" mk' t cl rows obs] by (simp add: m)
  show ?thesis
    using watch_limit_10 [OF assms] watch_limit_25 [OF assms]
      watch_limit_None [OF assms, of lv] m k f p
    by blast
qed

theorem orderBookL10_key_is_never_resolved_witness:
  "bm_load_markets example_bitmex = None
   \<and> bm_market_of example_bitmex (Some ''BTC/USD'') = Inr xbtusd
   \<and> bitmex_watch_order_book example_bitmex ''BTC/USD'' (Some 10)
       = Return (''wss://www.bitmex.com/realtime'', ''orderBookL10:XBTUSD'',
           \<lparr>r_op = Some ''subscribe'', args = Some (JList [''orderBookL10:XBTUSD''])\<rparr>)
   \<and> resolved_keys (fst (snd (bitmex_handle_message example_bitmex []
        (partial_frame ''orderBook10'' ''XBTUSD'' []) [])))
       = [Some ''orderBook10:XBTUSD'']
   \<and> bitmex_watch_order_book example_bitmex ''BTC/USD'' None
       = Return (''wss://www.bitmex.com/realtime'', ''orderBookL2:XBTUSD'',
           \<lparr>r_op = Some ''subscribe'', args = Some (JList [''orderBookL2:XBTUSD''])\<rparr>)
   \<and> resolved_keys (fst (snd (bitmex_handle_message example_bitmex []
        (partial_frame ''orderBookL2'' ''XBTUSD'' []) [])))
       = [Some ''orderBookL2:XBTUSD'']"
proof -
  have l: "bm_load_markets example_bitmex = None"
    and k: "bm_market_of example_bitmex (Some ''BTC/USD'') = Inr xbtusd"
    and o: "watchOrderBookLevel example_bitmex = Some ''orderBookL2''"
    and u: "bm_ws_url example_bitmex = ''wss://www.bitmex.com/realtime''"
    and b: "map_of (markets_by_id example_bitmex) (market_id xbtusd) = Some xbtusd"
    and i: "market_id xbtusd = ''XBTUSD''"
    by (simp_all add: example_bitmex_def xbtusd_def)
  have t: "''orderBook10'' \<in> set (map fst methods)" "''orderBookL2'' \<in> set (map fst methods)"
    by (simp_all add: methods_def)
  from orderBookL10_key_is_never_resolved [OF l k, of "[]" _ "[]" _ "''orderBookL2''" xbtusd
      "''orderBook10''" "[]"] b t u i
  have 1: "bitmex_watch_order_book example_bitmex ''BTC/USD'' (Some 10)
       = Return (''wss://www.bitmex.com/realtime'', ''orderBookL10:XBTUSD'',
           \<lparr>r_op = Some ''subscribe'', args = Some (JList [''orderBookL10:XBTUSD''])\<rparr>)"
    and 2: "resolved_keys (fst (snd (bitmex_handle_message example_bitmex []
        (partial_frame ''orderBook10'' ''XBTUSD'' []) [])))
       = [Some ''orderBook10:XBTUSD'']"
    by (simp_all add: methods_def)
  from orderBookL10_key_is_never_resolved [OF l k, of "[]" _ "[]" _ "''orderBookL2''" xbtusd
      "''orderBookL2''" "[]"] b t u i o
  have 3: "bitmex_watch_order_book example_bitmex ''BTC/USD'' None
       = Return (''wss://www.bitmex.com/realtime'', ''orderBookL2:XBTUSD'',
           \<lparr>r_op = Some ''subscribe'', args = Some (JList [''orderBookL2:XBTUSD''])\<rparr>)"
    and 4: "resolved_keys (fst (snd (bitmex_handle_message example_bitmex []
        (partial_frame ''orderBookL2'' ''XBTUSD'' []) [])))
       = [Some ''orderBookL2:XBTUSD'']"
    by (simp_all add: methods_def)
  from l k 1 2 3 4 show ?thesis by simp
qed

end
